theory Spec2Isabelle
  imports Main
begin

section \<open>JavaScript values\<close>

text \<open>
  The values that flow through mongore's field descriptors and wrappers.
  \<^item> \<open>Num n\<close> is the double whose value is the integer \<open>n\<close>, and \<open>NaN\<close> is itself; no
    property below looks at a fractional part or at an infinity. Arithmetic rounds as
    doubles do (see \<open>double_round\<close>).
  \<^item> A \<open>Date\<close> object is represented by its ISO-8601 text (what \<open>toISOString\<close> yields).
  \<^item> An array is the list of its elements; a plain object is the list of its own
    enumerable properties in enumeration order (the order of \<open>Object.keys\<close> and of
    \<open>for .. in\<close>), with distinct keys.
  \<^item> \<open>Inst c k\<close> is an instance of the registered model class named \<open>c\<close> whose wrapper
    answers \<open>k\<close> to \<open>mongore.id\<close> at the moment the value is inspected (\<open>Undefined\<close>
    when no primary key is assigned). Subclasses of a registered class are not modelled.
  There is no heap: a reference value stands for one object, so two reference values are
  the same object exactly when they are the same value.
\<close>

datatype jsval =
    Undefined
  | Null
  | Bool bool
  | NaN
  | Num int
  | Str string
  | DateV string
  | Arr "jsval list"
  | Obj "(string \<times> jsval) list"
  | Inst string jsval

datatype error =
    ValidationError string
  | PlainError string
  | TypeError string

text \<open>\<open>a === b\<close>: value equality on primitives, \<open>NaN\<close> differing from itself.\<close>

fun strict_eq :: "jsval \<Rightarrow> jsval \<Rightarrow> bool" where
  "strict_eq NaN b = False"
| "strict_eq a NaN = False"
| "strict_eq a b = (a = b)"

text \<open>\<open>v == null\<close> holds for \<open>null\<close> and \<open>undefined\<close> only.\<close>

fun nullish :: "jsval \<Rightarrow> bool" where
  "nullish Undefined = True"
| "nullish Null = True"
| "nullish v = False"

text \<open>
  \<open>a == b\<close> in the only situation the code uses it, namely when one side is already known
  to be \<open>null\<close> or \<open>undefined\<close>: the two are loosely equal to each other and to nothing else.
  Outside that situation the strict comparison is used.
\<close>

definition loose_eq :: "jsval \<Rightarrow> jsval \<Rightarrow> bool" where
  "loose_eq a b = (if nullish a \<or> nullish b then nullish a \<and> nullish b else strict_eq a b)"

text \<open>\<open>Boolean(v)\<close>, the truthiness used by every \<open>if (v)\<close> and \<open>a || b\<close>.\<close>

fun truthy :: "jsval \<Rightarrow> bool" where
  "truthy Undefined = False"
| "truthy Null = False"
| "truthy (Bool b) = b"
| "truthy NaN = False"
| "truthy (Num n) = (n \<noteq> 0)"
| "truthy (Str s) = (s \<noteq> [])"
| "truthy v = True"

text \<open>\<open>typeof v === "object"\<close>.\<close>

fun typeof_object :: "jsval \<Rightarrow> bool" where
  "typeof_object Null = True"
| "typeof_object (DateV d) = True"
| "typeof_object (Arr xs) = True"
| "typeof_object (Obj kvs) = True"
| "typeof_object (Inst c k) = True"
| "typeof_object v = False"

text \<open>Property assignment \<open>o[k] = v\<close> on a property list: an existing key keeps its place.\<close>

fun put :: "string \<Rightarrow> 'a \<Rightarrow> (string \<times> 'a) list \<Rightarrow> (string \<times> 'a) list" where
  "put k v [] = [(k, v)]"
| "put k v ((k', v') # kvs) = (if k = k' then (k, v) # kvs else (k', v') # put k v kvs)"

text \<open>Property read \<open>o[k]\<close> on a property list: a missing key reads \<open>undefined\<close>.\<close>

definition get :: "(string \<times> jsval) list \<Rightarrow> string \<Rightarrow> jsval" where
  "get kvs k = (case map_of kvs k of None \<Rightarrow> Undefined | Some v \<Rightarrow> v)"

text \<open>Running a list of fallible steps: the first failure (left to right) is the result.\<close>

fun collect :: "(error + 'a) list \<Rightarrow> error + 'a list" where
  "collect [] = Inr []"
| "collect (Inl e # rs) = Inl e"
| "collect (Inr x # rs) = (case collect rs of Inl e \<Rightarrow> Inl e | Inr xs \<Rightarrow> Inr (x # xs))"

subsection \<open>Text of a value\<close>

function show_nat :: "nat \<Rightarrow> string" where
  "show_nat n =
     (if n < 10 then [char_of (48 + n)]
      else show_nat (n div 10) @ [char_of (48 + n mod 10)])"
  by pat_completeness auto
termination
  by (relation "measure id") auto

definition show_int :: "int \<Rightarrow> string" where
  "show_int i = (if i < 0 then CHR ''-'' # show_nat (nat (- i)) else show_nat (nat i))"

fun join :: "string \<Rightarrow> string list \<Rightarrow> string" where
  "join sep [] = []"
| "join sep [s] = s"
| "join sep (s # t # ss) = s @ sep @ join sep (t # ss)"

text \<open>
  \<open>v.toString()\<close>. \<open>None\<close> is the \<open>TypeError\<close> raised on \<open>null\<close> and \<open>undefined\<close>, which
  have no methods. Inside an array, \<open>null\<close> and \<open>undefined\<close> print as the empty text.
  A \<open>Date\<close> prints its stored text here (the host prints a locale-dependent form).
\<close>

fun toString :: "jsval \<Rightarrow> string option" where
  "toString Undefined = None"
| "toString Null = None"
| "toString (Bool b) = Some (if b then ''true'' else ''false'')"
| "toString NaN = Some ''NaN''"
| "toString (Num n) = Some (show_int n)"
| "toString (Str s) = Some s"
| "toString (DateV d) = Some d"
| "toString (Arr xs) =
     Some (join '','' (map (\<lambda>x. case toString x of None \<Rightarrow> [] | Some s \<Rightarrow> s) xs))"
| "toString (Obj kvs) = Some ''[object Object]''"
| "toString (Inst c k) = Some ''[object Object]''"

subsection \<open>The email pattern\<close>

text \<open>
  \<open>emailRE.test(s)\<close> for the anchored pattern of \<^verbatim>\<open>email_field.js\<close>,
  \<^verbatim>\<open>/^\w+([\.-]?\w+)*@\w+([\.-]?\w+)*(\.\w{2,3})+$/\<close>, decided by derivatives.
  (The file holds two revisions of the class with the same \<open>clean\<close>; this is the pattern of
  the later one. The earlier one tests the lower-cased text against a longer pattern,
  which demands an \<open>@\<close> as well.)
\<close>

datatype rexp =
    Zero
  | One
  | Atom "char \<Rightarrow> bool"
  | Alt rexp rexp
  | Seq rexp rexp
  | Star rexp

fun nullable :: "rexp \<Rightarrow> bool" where
  "nullable Zero = False"
| "nullable One = True"
| "nullable (Atom p) = False"
| "nullable (Alt r s) = (nullable r \<or> nullable s)"
| "nullable (Seq r s) = (nullable r \<and> nullable s)"
| "nullable (Star r) = True"

fun deriv :: "char \<Rightarrow> rexp \<Rightarrow> rexp" where
  "deriv c Zero = Zero"
| "deriv c One = Zero"
| "deriv c (Atom p) = (if p c then One else Zero)"
| "deriv c (Alt r s) = Alt (deriv c r) (deriv c s)"
| "deriv c (Seq r s) =
     (if nullable r then Alt (Seq (deriv c r) s) (deriv c s) else Seq (deriv c r) s)"
| "deriv c (Star r) = Seq (deriv c r) (Star r)"

fun matches :: "rexp \<Rightarrow> string \<Rightarrow> bool" where
  "matches r [] = nullable r"
| "matches r (c # cs) = matches (deriv c r) cs"

definition word_char :: "char \<Rightarrow> bool" where
  "word_char c =
     (c \<in> set ''abcdefghijklmnopqrstuvwxyzABCDEFGHIJKLMNOPQRSTUVWXYZ0123456789_'')"

definition re_plus :: "rexp \<Rightarrow> rexp" where
  "re_plus r = Seq r (Star r)"

definition re_opt :: "rexp \<Rightarrow> rexp" where
  "re_opt r = Alt One r"

definition re_words :: rexp where
  "re_words = re_plus (Atom word_char)"

definition re_dotted :: rexp where
  "re_dotted =
     Seq re_words (Star (Seq (re_opt (Atom (\<lambda>c. c = CHR ''.'' \<or> c = CHR ''-''))) re_words))"

definition re_tld :: rexp where
  "re_tld =
     Seq (Atom (\<lambda>c. c = CHR ''.''))
       (Seq (Atom word_char) (Seq (Atom word_char) (re_opt (Atom word_char))))"

definition emailRE :: rexp where
  "emailRE = Seq re_dotted (Seq (Atom (\<lambda>c. c = CHR ''@'')) (Seq re_dotted (re_plus re_tld)))"

text \<open>
  \<open>validateEmail(v)\<close>: \<open>RegExp.test\<close> converts its argument to text first, so \<open>null\<close> is
  tested as the text \<open>null\<close>.
\<close>

definition validateEmail :: "jsval \<Rightarrow> bool" where
  "validateEmail v =
     matches emailRE
       (case v of Null \<Rightarrow> ''null'' | Undefined \<Rightarrow> ''undefined''
        | _ \<Rightarrow> (case toString v of None \<Rightarrow> [] | Some s \<Rightarrow> s))"

section \<open>Field descriptors\<close>

text \<open>
  The options every descriptor keeps in \<open>_data\<close>. \<open>default_opt\<close> is \<open>Undefined\<close> when the
  caller gave no default; \<open>source\<close> is the empty text when no alias was given (the code
  tests it for truthiness, so an empty alias counts as none); the flags are the
  truthiness of the corresponding options.
\<close>

record opts =
  default_opt :: jsval
  source :: string
  sourceReadonly :: bool
  canBeNull :: bool
  index :: bool
  unique :: bool

text \<open>
  One constructor per descriptor class, after its constructor has run:
  \<open>NumericField d parser min max\<close>, \<open>StringField d maxLength minLength\<close> (and the same for
  \<open>EmailField\<close>, its subclass), \<open>DateField d autoNow\<close>, \<open>ChoiceField d choices\<close>,
  \<open>ListField d maxItems itemsType removeDuplicates\<close>, \<open>DictionaryField d schema\<close> and
  \<open>ForeignKeyField d model\<close> (the name of the referenced class). The numeric parser is the
  caller's function (\<open>parseInt\<close>, \<open>parseFloat\<close>, ...), kept as a function on values.
\<close>

datatype field =
    GenericField opts
  | BooleanField opts
  | NumericField opts "jsval \<Rightarrow> jsval" "int option" "int option"
  | StringField opts "nat option" "nat option"
  | EmailField opts "nat option" "nat option"
  | DateField opts bool
  | ChoiceField opts "jsval list"
  | ListField opts "nat option" "field option" bool
  | DictionaryField opts "(string \<times> field) list option"
  | ForeignKeyField opts string

fun data :: "field \<Rightarrow> opts" where
  "data (GenericField d) = d"
| "data (BooleanField d) = d"
| "data (NumericField d parser lo hi) = d"
| "data (StringField d maxLength minLength) = d"
| "data (EmailField d maxLength minLength) = d"
| "data (DateField d autoNow) = d"
| "data (ChoiceField d choices) = d"
| "data (ListField d maxItems itemsType removeDuplicates) = d"
| "data (DictionaryField d schema) = d"
| "data (ForeignKeyField d model) = d"

subsection \<open>clean\<close>

text \<open>
  \<open>Field.clean(instance, v)\<close>: with a source alias the raw value is ignored and the aliased
  property of the instance is read. \<open>inst\<close> reads a property of the model object.
\<close>

definition Field_clean :: "opts \<Rightarrow> (string \<Rightarrow> jsval) \<Rightarrow> jsval \<Rightarrow> jsval" where
  "Field_clean d inst v = (if source d \<noteq> [] then inst (source d) else v)"

text \<open>\<open>Array.from(new Set(xs))\<close>: the first occurrence of each element, in order.\<close>

fun dedup :: "'a list \<Rightarrow> 'a list" where
  "dedup [] = []"
| "dedup (x # xs) = x # dedup (filter (\<lambda>y. y \<noteq> x) xs)"

text \<open>\<open>utils.arraysEqual\<close>: equal lengths, then an element-wise walk from the last index down.\<close>

fun arraysEqual_from :: "nat \<Rightarrow> string list \<Rightarrow> string list \<Rightarrow> bool" where
  "arraysEqual_from 0 arr1 arr2 = True"
| "arraysEqual_from (Suc i) arr1 arr2 =
     (if arr1 ! i \<noteq> arr2 ! i then False else arraysEqual_from i arr1 arr2)"

definition arraysEqual :: "string list \<Rightarrow> string list \<Rightarrow> bool" where
  "arraysEqual arr1 arr2 =
     (if length arr1 \<noteq> length arr2 then False
      else arraysEqual_from (length arr1) arr1 arr2)"

definition StringField_clean ::
  "opts \<Rightarrow> nat option \<Rightarrow> nat option \<Rightarrow> (string \<Rightarrow> jsval) \<Rightarrow> jsval \<Rightarrow> error + jsval" where
  "StringField_clean d maxLength minLength inst v0 =
     (let v = Field_clean d inst v0 in
      if v = Null \<and> canBeNull d then Inr v
      else case toString v of
        None \<Rightarrow> Inl (TypeError ''toString of null or undefined'')
      | Some s \<Rightarrow>
          if maxLength \<noteq> None \<and> length s > the maxLength
          then Inl (PlainError ''may not be longer than maxLength'')
          else if minLength \<noteq> None \<and> length s > the minLength
          then Inl (PlainError ''may not be shorter than minLength'')
          else Inr (Str s))"

text \<open>
  \<open>clean(instance, v)\<close> of each descriptor class; \<open>Inl\<close> is the exception thrown. \<open>now\<close> is
  what \<open>new Date()\<close> yields. The checks come in the order of the source.
\<close>

function clean :: "(string \<Rightarrow> jsval) \<Rightarrow> string \<Rightarrow> field \<Rightarrow> jsval \<Rightarrow> error + jsval" where
  "clean inst now (GenericField d) v = Inr (Field_clean d inst v)"
| "clean inst now (BooleanField d) v0 =
     (let v = Field_clean d inst v0 in
      if v = Null \<and> canBeNull d then Inr v else Inr (Bool (truthy v)))"
| "clean inst now (NumericField d parser lo hi) v0 =
     (let v = Field_clean d inst v0 in
      if v = Null \<and> canBeNull d then Inr v
      else case parser v of
        Num n \<Rightarrow>
          if lo \<noteq> None \<and> n < the lo then Inl (PlainError ''may not be smaller than min'')
          else if hi \<noteq> None \<and> n > the hi then Inl (PlainError ''may not be larger than max'')
          else Inr (Num n)
      | _ \<Rightarrow> Inl (PlainError ''not a valid number''))"
| "clean inst now (StringField d maxLength minLength) v =
     StringField_clean d maxLength minLength inst v"
| "clean inst now (EmailField d maxLength minLength) v0 =
     (case StringField_clean d maxLength minLength inst v0 of
        Inl e \<Rightarrow> Inl e
      | Inr v \<Rightarrow>
          if \<not> validateEmail v then Inl (ValidationError ''not a valid email pattern'')
          else Inr v)"
| "clean inst now (DateField d autoNow) v0 =
     (let v = Field_clean d inst v0 in
      if v = Null then Inr (if autoNow then DateV now else v)
      else case v of
        DateV t \<Rightarrow> Inr v
      | _ \<Rightarrow> Inl (PlainError ''not a date''))"
| "clean inst now (ChoiceField d choices) v0 =
     (let v = Field_clean d inst v0 in
      if v = Null \<and> canBeNull d then Inr v
      else case toString v of
        None \<Rightarrow> Inl (TypeError ''toString of null or undefined'')
      | Some s \<Rightarrow>
          if Str s \<notin> set choices
          then Inl (PlainError ''value does not appear in possible choices'')
          else Inr (Str s))"
| "clean inst now (ListField d maxItems itemsType removeDuplicates) v0 =
     (let v = Field_clean d inst v0 in
      case v of
        Arr xs \<Rightarrow>
          if maxItems \<noteq> None \<and> length xs > the maxItems
          then Inl (PlainError ''list is too long'')
          else
            (case (case itemsType of
                     None \<Rightarrow> Inr xs
                   | Some t \<Rightarrow> collect (map (clean inst now t) xs)) of
               Inl e \<Rightarrow> Inl e
             | Inr ys \<Rightarrow> Inr (Arr (if removeDuplicates then dedup ys else ys)))
      | _ \<Rightarrow> Inl (PlainError ''not a list''))"
| "clean inst now (DictionaryField d schema) v0 =
     (let v = Field_clean d inst v0 in
      case v of
        Undefined \<Rightarrow> Inl (TypeError ''constructor of undefined'')
      | Null \<Rightarrow> Inl (TypeError ''constructor of null'')
      | Obj kvs \<Rightarrow>
          if map_of kvs ''constructor'' \<noteq> None then Inl (ValidationError ''not a dictionary'')
          else
            (case schema of
               None \<Rightarrow> Inr v
             | Some sch \<Rightarrow>
                 if \<not> arraysEqual (map fst kvs) (map fst sch)
                 then Inl (ValidationError ''value keys don't match schema'')
                 else
                   (case collect (map (\<lambda>(key, x).
                            case map_of sch key of
                              None \<Rightarrow> Inl (TypeError ''clean of undefined'')
                            | Some f \<Rightarrow>
                                (case clean inst now f x of
                                   Inl e \<Rightarrow> Inl e
                                 | Inr y \<Rightarrow> Inr (key, y))) kvs) of
                      Inl e \<Rightarrow> Inl e
                    | Inr newDict \<Rightarrow> Inr (Obj newDict)))
      | _ \<Rightarrow> Inl (ValidationError ''not a dictionary''))"
| "clean inst now (ForeignKeyField d model) v0 =
     (let v = Field_clean d inst v0 in
      if v = Null \<and> canBeNull d then Inr v
      else case v of
        Inst c k \<Rightarrow>
          if c \<noteq> model then Inl (ValidationError ''value not an instance of the model'')
          else if k = Undefined then Inl (ValidationError ''object has no id yet'')
          else Inr k
      | _ \<Rightarrow> Inl (ValidationError ''value not an instance of the model''))"
  by pat_completeness auto
termination
  apply (relation "measure (\<lambda>(inst, now, f, v). size f)")
    apply (auto dest!: map_of_SomeD simp: less_Suc_eq_le)
  apply (rule le_SucI)
  apply (erule size_list_estimation')
  apply simp
  done

subsection \<open>Defaults\<close>

fun typeDefault :: "field \<Rightarrow> jsval" where
  "typeDefault (GenericField d) = Null"
| "typeDefault (BooleanField d) = Bool False"
| "typeDefault (NumericField d parser lo hi) = Num 0"
| "typeDefault (StringField d maxLength minLength) = Str []"
| "typeDefault (EmailField d maxLength minLength) = Str []"
| "typeDefault (DateField d autoNow) = Null"
| "typeDefault (ChoiceField d choices) = Null"
| "typeDefault (ListField d maxItems itemsType removeDuplicates) = Arr []"
| "typeDefault (DictionaryField d schema) = Obj []"
| "typeDefault (ForeignKeyField d model) = Null"

text \<open>The \<open>_default\<close> computed by the \<open>Field\<close> constructor.\<close>

definition stored_default :: "field \<Rightarrow> jsval" where
  "stored_default f =
     (if default_opt (data f) = Undefined then typeDefault f else default_opt (data f))"

text \<open>
  \<open>JSON.parse(JSON.stringify(v))\<close>. Serialising a model instance fails: its \<open>mongore\<close>
  wrapper points back to it, and \<open>JSON.stringify\<close> raises on the cycle. Otherwise a date
  becomes its ISO text, \<open>NaN\<close> becomes \<open>null\<close>, an \<open>undefined\<close> array element becomes
  \<open>null\<close> and an \<open>undefined\<close> property is dropped. \<open>json_copy\<close> returns \<open>Undefined\<close> for a
  value that has no JSON text.
\<close>

fun has_instance :: "jsval \<Rightarrow> bool" where
  "has_instance (Inst c k) = True"
| "has_instance (Arr xs) = (\<exists>x \<in> set xs. has_instance x)"
| "has_instance (Obj kvs) = (\<exists>kv \<in> set kvs. has_instance (snd kv))"
| "has_instance v = False"

fun json_copy :: "jsval \<Rightarrow> jsval" where
  "json_copy NaN = Null"
| "json_copy (DateV d) = Str d"
| "json_copy (Arr xs) =
     Arr (map (\<lambda>x. if json_copy x = Undefined then Null else json_copy x) xs)"
| "json_copy (Obj kvs) =
     Obj (filter (\<lambda>kv. snd kv \<noteq> Undefined) (map (\<lambda>kv. (fst kv, json_copy (snd kv))) kvs))"
| "json_copy (Inst c k) = Undefined"
| "json_copy v = v"

text \<open>
  \<open>cloneData(v)\<close>: \<open>null\<close> and values that are not objects are returned as they are, objects
  go through JSON; the foreign-key descriptor overrides it to return the object itself.
\<close>

fun cloneData :: "field \<Rightarrow> jsval \<Rightarrow> error + jsval" where
  "cloneData (ForeignKeyField d model) v = Inr v"
| "cloneData f v =
     (if v = Null then Inr Null
      else if typeof_object v
        then (if has_instance v then Inl (TypeError ''circular structure to JSON'')
              else Inr (json_copy v))
      else Inr v)"

text \<open>The \<open>default\<close> getter of a descriptor.\<close>

definition default_of :: "field \<Rightarrow> error + jsval" where
  "default_of f = cloneData f (stored_default f)"

subsection \<open>isEqual\<close>

text \<open>
  \<open>v.mongore\<close> followed by \<open>.id\<close>: \<open>None\<close> when \<open>v.mongore\<close> is falsy. A model instance
  answers its primary key; a plain object answers whatever its own \<open>mongore\<close> property
  holds; any other value has no such property.
\<close>

fun property :: "jsval \<Rightarrow> string \<Rightarrow> jsval" where
  "property (Obj kvs) k = get kvs k"
| "property v k = Undefined"

fun mongore_id :: "jsval \<Rightarrow> jsval option" where
  "mongore_id (Inst c k) = Some k"
| "mongore_id (Obj kvs) =
     (if truthy (get kvs ''mongore'') then Some (property (get kvs ''mongore'') ''id'') else None)"
| "mongore_id v = None"

text \<open>\<open>Field.isEqual\<close>, inherited by every class but the foreign key.\<close>

definition Field_isEqual :: "jsval \<Rightarrow> jsval \<Rightarrow> bool" where
  "Field_isEqual a b = strict_eq a b"

text \<open>\<open>ForeignKeyField.isEqual\<close>, line by line.\<close>

definition ForeignKeyField_isEqual :: "jsval \<Rightarrow> jsval \<Rightarrow> bool" where
  "ForeignKeyField_isEqual a b =
     (if nullish a \<or> nullish b then \<not> loose_eq a b
      else if mongore_id a = None \<or> mongore_id b = None then False
      else \<not> strict_eq (the (mongore_id a)) (the (mongore_id b)))"

fun isEqual :: "field \<Rightarrow> jsval \<Rightarrow> jsval \<Rightarrow> bool" where
  "isEqual (ForeignKeyField d model) a b = ForeignKeyField_isEqual a b"
| "isEqual f a b = Field_isEqual a b"

section \<open>The class-level wrapper\<close>

text \<open>
  \<open>ModelClassWrapper\<close>: the class it wraps (by name) and the model data handed to
  \<open>buildModel\<close>. \<open>md_fields\<close> lists the declared fields in declaration order;
  \<open>md_collectionName\<close> is empty when no collection name was given. The size limits of the
  model data only shape the collection options and are left out. \<open>buildModel\<close> refuses a
  field name that is already a property of the class prototype and installs an accessor
  pair for every other one; the field names here are names it accepted.
\<close>

record class_wrapper =
  class_name :: string
  md_fields :: "(string \<times> field) list"
  md_collectionName :: string

definition fieldNames :: "class_wrapper \<Rightarrow> string list" where
  "fieldNames cw = map fst (md_fields cw)"

definition getFieldDescriptor :: "class_wrapper \<Rightarrow> string \<Rightarrow> field option" where
  "getFieldDescriptor cw fieldName = map_of (md_fields cw) fieldName"

definition getDefault :: "class_wrapper \<Rightarrow> string \<Rightarrow> error + jsval" where
  "getDefault cw fieldName =
     (case getFieldDescriptor cw fieldName of
        None \<Rightarrow> Inl (TypeError ''default of undefined'')
      | Some f \<Rightarrow> default_of f)"

definition collectionName :: "class_wrapper \<Rightarrow> string" where
  "collectionName cw =
     (if md_collectionName cw \<noteq> [] then md_collectionName cw else class_name cw @ ''s'')"

section \<open>The instance-level wrapper\<close>

text \<open>
  What leaves a call: a request handed to the storage client (\<open>DbClient.insertOne\<close>,
  \<open>updateOne\<close>, \<open>deleteOne\<close>, \<open>findOne\<close>, each with its collection name), a lifecycle hook
  of the model object being run, or a caller's callback being invoked. Callbacks are
  known by a label. The hooks are those of the \<open>Model\<close> base class, whose bodies are empty.
  What the storage client does with a request (connection check, driver call, logging)
  lies behind this boundary; its answer comes back as the argument of a success callback.
\<close>

type_synonym document = "(string \<times> jsval) list"

type_synonym callback = string

datatype request =
    InsertOne document string
  | UpdateOne document document string
  | DeleteOne document string
  | FindOne jsval string

datatype event =
    Request request
  | Hook string
  | Called callback

text \<open>
  The state of a \<open>ModelInstanceWrapper\<close>, one component per member (\<open>w_fields\<close> is
  \<open>_fields\<close>, and so on), together with \<open>w_object\<close>: the own properties of the wrapped model
  object that are not declared fields. \<open>w_dirtyFields\<close> is the \<open>Set\<close> of dirty names in
  insertion order.
\<close>

record wrapper =
  w_classWrapper :: class_wrapper
  w_object :: document
  w_fields :: document
  w_lastLoadTime :: jsval
  w_isLoadedFromDB :: bool
  w_isSavedToDB :: bool
  w_onFirstLoad :: "callback option"
  w_dirtyFields :: "string list"

definition new_wrapper :: "class_wrapper \<Rightarrow> wrapper" where
  "new_wrapper cw =
     \<lparr> w_classWrapper = cw, w_object = [], w_fields = [], w_lastLoadTime = Null,
       w_isLoadedFromDB = False, w_isSavedToDB = False, w_onFirstLoad = None,
       w_dirtyFields = [] \<rparr>"

definition isDirty :: "wrapper \<Rightarrow> bool" where
  "isDirty w = (length (w_dirtyFields w) \<noteq> 0)"

definition isInDB :: "wrapper \<Rightarrow> bool" where
  "isInDB w = (w_isLoadedFromDB w \<or> w_isSavedToDB w)"

definition get_id :: "wrapper \<Rightarrow> jsval" where
  "get_id w = get (w_fields w) ''_id''"

definition objectVersion :: "wrapper \<Rightarrow> jsval" where
  "objectVersion w = get (w_fields w) ''_dbObjectVersion''"

definition creationTime :: "wrapper \<Rightarrow> jsval" where
  "creationTime w = get (w_fields w) ''_dbCreationTime''"

definition lastUpdateTime :: "wrapper \<Rightarrow> jsval" where
  "lastUpdateTime w = get (w_fields w) ''_dbLastUpdateTime''"

text \<open>\<open>Set.add\<close>.\<close>

definition Set_add :: "string \<Rightarrow> string list \<Rightarrow> string list" where
  "Set_add x xs = (if x \<in> set xs then xs else xs @ [x])"

subsection \<open>The accessors installed by buildModel\<close>

text \<open>
  Reading \<open>object[name]\<close>: a declared field reads \<open>_fields[name]\<close> through the installed
  getter, any other name reads the object's own property.
\<close>

definition object_get :: "wrapper \<Rightarrow> string \<Rightarrow> jsval" where
  "object_get w name =
     (if getFieldDescriptor (w_classWrapper w) name \<noteq> None then get (w_fields w) name
      else get (w_object w) name)"

text \<open>The installed setter of the declared field \<open>name\<close> with descriptor \<open>f\<close>.\<close>

definition setter :: "field \<Rightarrow> string \<Rightarrow> jsval \<Rightarrow> wrapper \<Rightarrow> wrapper" where
  "setter f name v w =
     (if isEqual f v (get (w_fields w) name) then w
      else w \<lparr> w_fields := put name v (w_fields w),
               w_dirtyFields := Set_add name (w_dirtyFields w) \<rparr>)"

text \<open>Writing \<open>object[name] = v\<close>.\<close>

definition object_set :: "string \<Rightarrow> jsval \<Rightarrow> wrapper \<Rightarrow> wrapper" where
  "object_set name v w =
     (case getFieldDescriptor (w_classWrapper w) name of
        None \<Rightarrow> w \<lparr> w_object := put name v (w_object w) \<rparr>
      | Some f \<Rightarrow> setter f name v w)"

subsection \<open>The Model constructor\<close>

fun set_defaults :: "string list \<Rightarrow> wrapper \<Rightarrow> error + wrapper" where
  "set_defaults [] w = Inr w"
| "set_defaults (name # names) w =
     (case getDefault (w_classWrapper w) name of
        Inl e \<Rightarrow> Inl e
      | Inr v \<Rightarrow> set_defaults names (object_set name v w))"

text \<open>
  \<open>new C()\<close> for a class \<open>C\<close> that extends \<open>Model\<close>, up to the end of the base constructor.
  The argument is \<open>C.mongore\<close>: \<open>None\<close> when \<open>buildModel\<close> was never called on the class.
\<close>

definition Model_new :: "class_wrapper option \<Rightarrow> error + wrapper" where
  "Model_new mongore =
     (case mongore of
        None \<Rightarrow> Inl (PlainError ''Cannot create instance of Model before buildModel() is called!'')
      | Some cw \<Rightarrow> set_defaults (fieldNames cw) (new_wrapper cw))"

subsection \<open>toDocument and save\<close>

text \<open>
  Rounding an integer to the nearest double, ties going to the even significand. A double
  has a significand of 53 bits, so every integer below \<open>2^53 = 9007199254740992\<close> in
  magnitude is a double; a larger one loses its \<open>excess_bits\<close> low bits.
\<close>

function excess_bits :: "nat \<Rightarrow> nat" where
  "excess_bits a = (if a < 9007199254740992 then 0 else Suc (excess_bits (a div 2)))"
  by pat_completeness auto
termination
  by (relation "measure id") auto

declare excess_bits.simps [simp del]

definition double_round :: "int \<Rightarrow> int" where
  "double_round i =
     (let a = nat \<bar>i\<bar>; e = excess_bits a; q = a div 2 ^ e; r = a mod 2 ^ e
      in if e = 0 then i
         else sgn i *
              int ((if 2 ^ e < 2 * r \<or> (2 * r = 2 ^ e \<and> odd q) then q + 1 else q) * 2 ^ e))"

text \<open>
  \<open>x + 1\<close> for a truthy \<open>x\<close>: addition of doubles on a number or a boolean (the exact sum,
  rounded), text concatenation on everything else.
\<close>

definition plus_one :: "jsval \<Rightarrow> jsval" where
  "plus_one x =
     (case x of
        Num n \<Rightarrow> Num (double_round (n + 1))
      | Bool b \<Rightarrow> Num ((if b then 1 else 0) + 1)
      | _ \<Rightarrow> (case toString x of None \<Rightarrow> NaN | Some s \<Rightarrow> Str (s @ ''1'')))"

text \<open>\<open>a || b\<close>.\<close>

definition or_else :: "jsval \<Rightarrow> jsval \<Rightarrow> jsval" where
  "or_else a b = (if truthy a then a else b)"

text \<open>
  The value \<open>toDocument\<close> writes for one key: the descriptor's \<open>clean\<close> of the stored
  value, or the stored value itself when the key has no descriptor.
\<close>

definition clean_key :: "wrapper \<Rightarrow> string \<Rightarrow> string \<Rightarrow> error + jsval" where
  "clean_key w now key =
     (case getFieldDescriptor (w_classWrapper w) key of
        None \<Rightarrow> Inr (get (w_fields w) key)
      | Some descriptor \<Rightarrow> clean (object_get w) now descriptor (get (w_fields w) key))"

text \<open>
  The loop of \<open>toDocument\<close> over the keys of \<open>_fields\<close>, filling \<open>ret\<close>; a failing \<open>clean\<close>
  ends it with the exception.
\<close>

fun toDocument_loop ::
  "wrapper \<Rightarrow> string \<Rightarrow> bool \<Rightarrow> string list \<Rightarrow> document \<Rightarrow> error + document" where
  "toDocument_loop w now dirtyOnly [] ret = Inr ret"
| "toDocument_loop w now dirtyOnly (key # keys) ret =
     (if dirtyOnly \<and> key \<notin> set (w_dirtyFields w) then toDocument_loop w now dirtyOnly keys ret
      else
        (case clean_key w now key of
           Inl e \<Rightarrow> Inl e
         | Inr v \<Rightarrow> toDocument_loop w now dirtyOnly keys (put key v ret)))"

definition toDocument :: "wrapper \<Rightarrow> string \<Rightarrow> bool \<Rightarrow> error + document" where
  "toDocument w now dirtyOnly =
     (case toDocument_loop w now dirtyOnly (map fst (w_fields w)) [] of
        Inl e \<Rightarrow> Inl e
      | Inr ret \<Rightarrow>
          (let ret1 = put ''_dbLastUpdateTime'' (DateV now) ret;
               ret2 = put ''_dbCreationTime''
                        (or_else (get (w_fields w) ''_dbCreationTime'')
                                 (get ret1 ''_dbLastUpdateTime'')) ret1;
               ret3 = put ''_dbObjectVersion''
                        (plus_one (or_else (get (w_fields w) ''_dbObjectVersion'') (Num 0))) ret2
           in Inr ret3))"

text \<open>
  \<open>save(onSuccess, onError, forceSave)\<close> up to its return: the wrapper afterwards, what left
  the call, and the exception if one was thrown. The callbacks travel with the request and
  come back in \<open>save_succeeded\<close>.
\<close>

definition save :: "wrapper \<Rightarrow> bool \<Rightarrow> string \<Rightarrow> wrapper \<times> event list \<times> error option" where
  "save w forceSave now =
     (if isInDB w then
        (if forceSave \<or> isDirty w then
           (case toDocument w now True of
              Inl e \<Rightarrow> (w, [Hook ''beforeSaveToDB''], Some e)
            | Inr dat \<Rightarrow>
                (w, [Hook ''beforeSaveToDB'',
                     Request (UpdateOne [(''_id'', get_id w)] dat
                                (collectionName (w_classWrapper w)))], None))
         else (w, [Hook ''beforeSaveToDB''], None))
      else
        (case toDocument w now False of
           Inl e \<Rightarrow> (w, [Hook ''beforeSaveToDB''], Some e)
         | Inr dat \<Rightarrow>
             (w, [Hook ''beforeSaveToDB'',
                  Request (InsertOne dat (collectionName (w_classWrapper w)))], None)))"

text \<open>\<open>_afterSaveToDB(data)\<close>, where \<open>data\<close> is what the storage client hands to the callback.\<close>

definition afterSaveToDB :: "document \<Rightarrow> wrapper \<Rightarrow> wrapper \<times> event list" where
  "afterSaveToDB dat w =
     (let f1 = put ''_dbCreationTime''
                 (or_else (get dat ''_dbCreationTime'') (get (w_fields w) ''_dbCreationTime''))
                 (w_fields w);
          f2 = put ''_dbLastUpdateTime'' (get dat ''_dbLastUpdateTime'') f1;
          f3 = put ''_dbObjectVersion'' (get dat ''_dbObjectVersion'') f2
      in (w \<lparr> w_isSavedToDB := True, w_dirtyFields := [], w_fields := f3 \<rparr>,
          [Hook ''afterSavedToDB'']))"

text \<open>The success callback that \<open>save\<close> hands to \<open>insertOne\<close> and \<open>updateOne\<close>.\<close>

definition save_succeeded ::
  "document \<Rightarrow> callback option \<Rightarrow> wrapper \<Rightarrow> wrapper \<times> event list" where
  "save_succeeded dat onSuccess w =
     (case afterSaveToDB dat w of
        (w', evs) \<Rightarrow> (w', evs @ (case onSuccess of None \<Rightarrow> [] | Some cb \<Rightarrow> [Called cb])))"

subsection \<open>delete\<close>

definition delete :: "wrapper \<Rightarrow> event list" where
  "delete w =
     [Request (DeleteOne [(''_id'', get_id w)] (collectionName (w_classWrapper w)))]"

text \<open>The success callback that \<open>delete\<close> hands to \<open>deleteOne\<close>.\<close>

definition delete_succeeded :: "callback option \<Rightarrow> wrapper \<Rightarrow> wrapper \<times> event list" where
  "delete_succeeded onSuccess w =
     (w, Hook ''afterDeletedFromDB'' # (case onSuccess of None \<Rightarrow> [] | Some cb \<Rightarrow> [Called cb]))"

subsection \<open>Loading\<close>

text \<open>
  \<open>ModelClassWrapper.load(query, ...)\<close> up to its return: the fresh instance it builds and
  the \<open>findOne\<close> it hands to the storage client. A query that is not an object is wrapped
  into a filter on \<open>_id\<close>.
\<close>

definition load :: "class_wrapper \<Rightarrow> jsval \<Rightarrow> error + wrapper \<times> event list" where
  "load cw query =
     (case Model_new (Some cw) of
        Inl e \<Rightarrow> Inl e
      | Inr ret \<Rightarrow>
          Inr (ret, [Request (FindOne (if \<not> typeof_object query then Obj [(''_id'', query)]
                                       else query)
                                      (collectionName cw))]))"

text \<open>\<open>Field.initAfterLoad(instance, v)\<close>: its effect on the instance; it returns \<open>v\<close>.\<close>

definition Field_initAfterLoad :: "opts \<Rightarrow> jsval \<Rightarrow> wrapper \<Rightarrow> wrapper" where
  "Field_initAfterLoad d v w =
     (if source d \<noteq> [] \<and> \<not> sourceReadonly d then object_set (source d) v w else w)"

text \<open>
  \<open>initAfterLoad(instance, v)\<close> of a descriptor: the value it returns, the instance
  afterwards and what left the call. The foreign key loads the referenced class first
  (\<open>classes\<close> maps a class name to its \<open>mongore\<close>, if it has one) and continues with the
  instance that \<open>load\<close> returned, which at this point holds what its constructor put in it.
\<close>

fun initAfterLoad ::
  "(string \<Rightarrow> class_wrapper option) \<Rightarrow> field \<Rightarrow> jsval \<Rightarrow> wrapper
     \<Rightarrow> error + jsval \<times> wrapper \<times> event list" where
  "initAfterLoad classes (ForeignKeyField d model) v w =
     (case classes model of
        None \<Rightarrow> Inl (TypeError ''load of undefined'')
      | Some cw \<Rightarrow>
          (case load cw v of
             Inl e \<Rightarrow> Inl e
           | Inr (ret, evs) \<Rightarrow>
               (let v' = Inst (class_name cw) (get_id ret)
                in Inr (v', Field_initAfterLoad d v' w, evs))))"
| "initAfterLoad classes f v w = Inr (v, Field_initAfterLoad (data f) v w, [])"

text \<open>
  Reading a callback-valued property of the wrapper by name. The class declares the
  member \<open>_onFirstLoad\<close> and the accessor \<open>onLoaded\<close> over it; a read of any other name
  finds no callback.
\<close>

definition wrapper_callback :: "wrapper \<Rightarrow> string \<Rightarrow> callback option" where
  "wrapper_callback w name =
     (if name = ''_onFirstLoad'' \<or> name = ''onLoaded'' then w_onFirstLoad w else None)"

text \<open>\<open>_afterLoadFromDB\<close>; its last line reads \<open>this.onFirstLoad\<close>.\<close>

definition afterLoadFromDB :: "string \<Rightarrow> wrapper \<Rightarrow> wrapper \<times> event list" where
  "afterLoadFromDB now w =
     (let firstLoad = \<not> w_isLoadedFromDB w;
          w' = w \<lparr> w_isLoadedFromDB := True, w_dirtyFields := [], w_lastLoadTime := DateV now \<rparr>
      in (w', Hook ''afterLoadedFromDB'' #
              (if firstLoad \<and> wrapper_callback w' ''onFirstLoad'' \<noteq> None
               then [Called (the (wrapper_callback w' ''onFirstLoad''))] else [])))"

text \<open>The loop of \<open>_setFromDBDocument\<close> over the keys of the fetched document.\<close>

fun setFromDBDocument_loop ::
  "(string \<Rightarrow> class_wrapper option) \<Rightarrow> document \<Rightarrow> string list \<Rightarrow> wrapper
     \<Rightarrow> wrapper \<times> event list \<times> error option" where
  "setFromDBDocument_loop classes dat [] w = (w, [], None)"
| "setFromDBDocument_loop classes dat (key # keys) w =
     (case (case getFieldDescriptor (w_classWrapper w) key of
              None \<Rightarrow> Inr (get dat key, w, [])
            | Some descriptor \<Rightarrow> initAfterLoad classes descriptor (get dat key) w) of
        Inl e \<Rightarrow> (w, [], Some e)
      | Inr (v, w1, evs1) \<Rightarrow>
          (case setFromDBDocument_loop classes dat keys
                  (w1 \<lparr> w_fields := put key v (w_fields w1) \<rparr>) of
             (w2, evs2, err) \<Rightarrow> (w2, evs1 @ evs2, err)))"

definition setFromDBDocument ::
  "(string \<Rightarrow> class_wrapper option) \<Rightarrow> string \<Rightarrow> document \<Rightarrow> bool \<Rightarrow> wrapper
     \<Rightarrow> wrapper \<times> event list \<times> error option" where
  "setFromDBDocument classes now dat invokePostLoadEvents w =
     (case setFromDBDocument_loop classes dat (map fst dat) w of
        (w1, evs1, Some e) \<Rightarrow> (w1, evs1, Some e)
      | (w1, evs1, None) \<Rightarrow>
          (if invokePostLoadEvents
           then (case afterLoadFromDB now w1 of (w2, evs2) \<Rightarrow> (w2, evs1 @ evs2, None))
           else (w1, evs1, None)))"

text \<open>
  The success callback that \<open>load\<close> and \<open>reload\<close> hand to \<open>findOne\<close>: hydrate the instance
  from the fetched document, then invoke the caller's callback.
\<close>

definition load_succeeded ::
  "(string \<Rightarrow> class_wrapper option) \<Rightarrow> string \<Rightarrow> document \<Rightarrow> callback option \<Rightarrow> wrapper
     \<Rightarrow> wrapper \<times> event list \<times> error option" where
  "load_succeeded classes now dat onSuccess w =
     (case setFromDBDocument classes now dat True w of
        (w', evs, Some e) \<Rightarrow> (w', evs, Some e)
      | (w', evs, None) \<Rightarrow>
          (w', evs @ (case onSuccess of None \<Rightarrow> [] | Some cb \<Rightarrow> [Called cb]), None))"

text \<open>\<open>reload(onSuccess, onError)\<close> up to its return.\<close>

definition reload :: "wrapper \<Rightarrow> event list \<times> error option" where
  "reload w =
     (if \<not> isInDB w
      then ([], Some (PlainError ''Cannot call reload() on instances that were not load / saved to DB!''))
      else ([Request (FindOne (Obj [(''_id'', get_id w)]) (collectionName (w_classWrapper w)))],
            None))"

text \<open>The \<open>onLoaded\<close> setter: store the callback, and invoke it at once on a loaded instance.\<close>

definition set_onLoaded :: "callback option \<Rightarrow> wrapper \<Rightarrow> wrapper \<times> event list" where
  "set_onLoaded cb w =
     (w \<lparr> w_onFirstLoad := cb \<rparr>,
      (if cb \<noteq> None \<and> w_isLoadedFromDB w then [Called (the cb)] else []))"

definition get_onLoaded :: "wrapper \<Rightarrow> callback option" where
  "get_onLoaded w = wrapper_callback w ''onLoaded''"

section \<open>Notions used in the statements\<close>

fun is_foreign_key :: "field \<Rightarrow> bool" where
  "is_foreign_key (ForeignKeyField d model) = True"
| "is_foreign_key f = False"

text \<open>The field \<open>name\<close> holds the default of its descriptor \<open>f\<close> and is marked dirty.\<close>

definition holds_default :: "field \<Rightarrow> string \<Rightarrow> wrapper \<Rightarrow> bool" where
  "holds_default f name w =
     (default_of f = Inr (get (w_fields w) name) \<and> name \<in> set (w_dirtyFields w))"

text \<open>The three keys that \<open>toDocument\<close> stamps on every document.\<close>

definition bookkeeping :: "string set" where
  "bookkeeping = {''_dbLastUpdateTime'', ''_dbCreationTime'', ''_dbObjectVersion''}"

text \<open>The document of the first write request among the events of a call.\<close>

fun written :: "event list \<Rightarrow> document option" where
  "written [] = None"
| "written (Request (InsertOne dat c) # evs) = Some dat"
| "written (Request (UpdateOne query dat c) # evs) = Some dat"
| "written (ev # evs) = written evs"

fun assign_all :: "(string \<times> jsval) list \<Rightarrow> wrapper \<Rightarrow> wrapper" where
  "assign_all [] w = w"
| "assign_all ((name, v) # rest) w = assign_all rest (object_set name v w)"

text \<open>
  A session on one instance. In each step the application assigns some properties and
  calls \<open>save\<close>; when the call hands a write to the storage client, the client answers it
  with the result \<open>reply dat\<close> and the success callback runs before the next step. The
  session yields the \<open>_dbObjectVersion\<close> of every document written, in order; \<open>None\<close> when
  a \<open>save\<close> throws.
\<close>

fun run_saves ::
  "(document \<Rightarrow> document) \<Rightarrow> wrapper \<Rightarrow> ((string \<times> jsval) list \<times> bool \<times> string) list
     \<Rightarrow> jsval list option" where
  "run_saves reply w [] = Some []"
| "run_saves reply w ((assigns, forceSave, now) # steps) =
     (case save (assign_all assigns w) forceSave now of
        (w1, evs, Some e) \<Rightarrow> None
      | (w1, evs, None) \<Rightarrow>
          (case written evs of
             None \<Rightarrow> run_saves reply w1 steps
           | Some dat \<Rightarrow>
               (case run_saves reply (fst (save_succeeded (reply dat) None w1)) steps of
                  None \<Rightarrow> None
                | Some vs \<Rightarrow> Some (get dat ''_dbObjectVersion'' # vs))))"

text \<open>
  A storage client that answers a write as the database driver does, with an
  acknowledgement that carries none of the document's fields.
\<close>

definition acknowledge :: "document \<Rightarrow> document" where
  "acknowledge dat = [(''acknowledged'', Bool True), (''n'', Num 1)]"

section \<open>Example models\<close>

text \<open>
  The forum models of the project's README, used to run the definitions on concrete
  inputs: \<open>User\<close> (keyed by its \<open>username\<close>) and \<open>Board\<close> (keyed by its \<open>name\<close>, with a
  foreign key to its creator).
\<close>

definition plain_opts :: opts where
  "plain_opts =
     \<lparr> default_opt = Undefined, source = [], sourceReadonly = False, canBeNull = False,
       index = False, unique = False \<rparr>"

text \<open>A model object without properties, for descriptors that read none.\<close>

definition no_object :: "string \<Rightarrow> jsval" where
  "no_object name = Undefined"

definition User_mongore :: class_wrapper where
  "User_mongore =
     \<lparr> class_name = ''User'',
       md_fields =
         [(''_id'', StringField (plain_opts \<lparr> source := ''username'' \<rparr>) (Some 16) None),
          (''userType'',
             ChoiceField plain_opts [Str ''guest'', Str ''registered'', Str ''admin'']),
          (''password'', StringField plain_opts None None)],
       md_collectionName = [] \<rparr>"

definition Board_mongore :: class_wrapper where
  "Board_mongore =
     \<lparr> class_name = ''Board'',
       md_fields =
         [(''_id'', StringField (plain_opts \<lparr> source := ''name'' \<rparr>) (Some 16) None),
          (''creator'', ForeignKeyField plain_opts ''User'')],
       md_collectionName = [] \<rparr>"

definition forum_classes :: "string \<Rightarrow> class_wrapper option" where
  "forum_classes name =
     (if name = ''User'' then Some User_mongore
      else if name = ''Board'' then Some Board_mongore else None)"

text \<open>A user as the base constructor leaves it.\<close>

definition new_user :: wrapper where
  "new_user =
     (new_wrapper User_mongore)
       \<lparr> w_fields := [(''_id'', Str []), (''userType'', Null), (''password'', Str [])],
         w_dirtyFields := [''_id'', ''userType'', ''password''] \<rparr>"

text \<open>The same user once the application has filled it in, before any save.\<close>

definition new_billy :: wrapper where
  "new_billy =
     object_set ''userType'' (Str ''admin'')
       (object_set ''password'' (Str ''pass1234'')
         (object_set ''username'' (Str ''Billy'') new_user))"

definition new_billy_insert :: document where
  "new_billy_insert =
     [(''_id'', Str ''Billy''), (''userType'', Str ''admin''), (''password'', Str ''pass1234''),
      (''_dbLastUpdateTime'', DateV ''2019-03-01T10:00:00.000Z''),
      (''_dbCreationTime'', DateV ''2019-03-01T10:00:00.000Z''),
      (''_dbObjectVersion'', Num 1)]"

definition insert_result :: document where
  "insert_result = [(''insertedCount'', Num 1), (''insertedId'', Str ''Billy'')]"

text \<open>A user whose type is not one of the choices.\<close>

definition bad_user :: wrapper where
  "bad_user = object_set ''userType'' (Str ''root'') new_billy"

text \<open>The stored document of the user, and the user as it stands after a load.\<close>

definition billy_document :: document where
  "billy_document =
     [(''_id'', Str ''Billy''), (''userType'', Str ''admin''), (''password'', Str ''pass1234''),
      (''_dbLastUpdateTime'', DateV ''2019-03-01T10:00:00.000Z''),
      (''_dbCreationTime'', DateV ''2019-03-01T10:00:00.000Z''),
      (''_dbObjectVersion'', Num 1)]"

definition loaded_user :: wrapper where
  "loaded_user =
     \<lparr> w_classWrapper = User_mongore,
       w_object = [(''username'', Str ''Billy'')],
       w_fields = billy_document,
       w_lastLoadTime = DateV ''2019-03-02T08:00:00.000Z'',
       w_isLoadedFromDB = True, w_isSavedToDB = False, w_onFirstLoad = None,
       w_dirtyFields = [] \<rparr>"

text \<open>The loaded user after \<open>user.password = "hunter2"\<close>, and the update that saves it.\<close>

definition edited_user :: wrapper where
  "edited_user = object_set ''password'' (Str ''hunter2'') loaded_user"

definition edited_user_update :: document where
  "edited_user_update =
     [(''password'', Str ''hunter2''),
      (''_dbLastUpdateTime'', DateV ''2019-03-03T09:00:00.000Z''),
      (''_dbCreationTime'', DateV ''2019-03-01T10:00:00.000Z''),
      (''_dbObjectVersion'', Num 2)]"

text \<open>A board as it stands after a load, its creator being the user \<open>billy\<close>.\<close>

definition loaded_board :: wrapper where
  "loaded_board =
     (new_wrapper Board_mongore)
       \<lparr> w_object := [(''name'', Str ''general'')],
         w_fields := [(''_id'', Str ''general''), (''creator'', Inst ''User'' (Str ''billy''))],
         w_isLoadedFromDB := True \<rparr>"

text \<open>
  A dictionary field with the schema \<open>{a: NumericField, b: StringField}\<close>; the numeric
  parser passes numbers through and answers \<open>NaN\<close> to everything else.
\<close>

definition numbers_only :: "jsval \<Rightarrow> jsval" where
  "numbers_only v = (case v of Num n \<Rightarrow> Num n | _ \<Rightarrow> NaN)"

definition point_schema :: "(string \<times> field) list" where
  "point_schema =
     [(''a'', NumericField plain_opts numbers_only None None),
      (''b'', StringField plain_opts None None)]"

definition point_field :: field where
  "point_field =
     DictionaryField (plain_opts \<lparr> default_opt := Obj [(''a'', Num 0), (''b'', Str [])] \<rparr>)
       (Some point_schema)"

section \<open>Properties\<close>

subsection \<open>Rounding\<close>

lemma excess_bits_small: "a < 9007199254740992 \<Longrightarrow> excess_bits a = 0"
  by (subst excess_bits.simps) simp

lemma double_round_small: "\<bar>i\<bar> < 9007199254740992 \<Longrightarrow> double_round i = i"
  by (simp add: double_round_def excess_bits_small)

lemma plus_one_Num: "\<bar>k + 1\<bar> < 9007199254740992 \<Longrightarrow> plus_one (Num k) = Num (k + 1)"
  by (simp add: plus_one_def double_round_small)

text \<open>From \<open>2^53\<close> on, adding one to a double need not change it.\<close>

lemma plus_one_rounds:
  "plus_one (Num 9007199254740992) = Num 9007199254740992"
  "plus_one (Num 9007199254740994) = Num 9007199254740996"
  by (simp_all add: plus_one_def double_round_def Let_def excess_bits.simps)

lemmas example_defs =
  User_mongore_def Board_mongore_def forum_classes_def new_user_def billy_document_def
  loaded_user_def edited_user_def new_billy_def loaded_board_def plain_opts_def no_object_def
  new_billy_insert_def insert_result_def bad_user_def edited_user_update_def
  numbers_only_def point_schema_def point_field_def acknowledge_def

lemmas wrapper_defs =
  new_wrapper_def isDirty_def isInDB_def get_id_def objectVersion_def Set_add_def
  object_get_def object_set_def setter_def getFieldDescriptor_def fieldNames_def
  getDefault_def collectionName_def default_of_def stored_default_def
  Field_isEqual_def ForeignKeyField_isEqual_def loose_eq_def get_def
  Model_new_def toDocument_def clean_key_def plus_one_def or_else_def save_def
  afterSaveToDB_def save_succeeded_def delete_def delete_succeeded_def
  load_def Field_initAfterLoad_def afterLoadFromDB_def wrapper_callback_def
  setFromDBDocument_def load_succeeded_def reload_def set_onLoaded_def
  Field_clean_def StringField_clean_def arraysEqual_def bookkeeping_def
  double_round_small

subsection \<open>Property lists\<close>

lemma map_of_put: "map_of (put k v kvs) = (map_of kvs)(k \<mapsto> v)"
  by (induction kvs) auto

lemma get_put: "get (put k v kvs) k' = (if k' = k then v else get kvs k')"
  by (simp add: get_def map_of_put)

lemma keys_put: "fst ` set (put k v kvs) = insert k (fst ` set kvs)"
  by (simp add: dom_map_of_conv_image_fst [symmetric] map_of_put)

lemma strict_eq_Undefined: "strict_eq v Undefined = (v = Undefined)"
  by (cases v) auto

lemma strict_eq_same: "strict_eq a b \<Longrightarrow> a = b"
  by (cases a; cases b) auto

lemma collect_Inr_iff:
  "(\<exists>ys. collect rs = Inr ys) = (\<forall>r \<in> set rs. \<exists>y. r = Inr y)"
proof (induction rs)
  case Nil
  then show ?case by simp
next
  case (Cons r rs)
  then show ?case
    by (cases r) (auto split: sum.splits)
qed

subsection \<open>The example states are reachable\<close>

lemma new_user_constructed: "Model_new (forum_classes ''User'') = Inr new_user"
  by (simp add: example_defs wrapper_defs)

lemma loaded_user_reached:
  "load User_mongore (Str ''Billy'')
     = Inr (new_user, [Request (FindOne (Obj [(''_id'', Str ''Billy'')]) ''Users'')])
   \<and> load_succeeded forum_classes ''2019-03-02T08:00:00.000Z'' billy_document None new_user
     = (loaded_user, [Hook ''afterLoadedFromDB''], None)"
  by (simp add: example_defs wrapper_defs)

lemma edited_user_state:
  "edited_user =
     loaded_user \<lparr> w_fields := put ''password'' (Str ''hunter2'') billy_document,
                   w_dirtyFields := [''password''] \<rparr>"
  by (simp add: example_defs wrapper_defs)

subsection \<open>Equality of foreign keys (C1)\<close>

lemma ForeignKeyField_isEqual_instances:
  "ForeignKeyField_isEqual (Inst c k) (Inst c' k') = (\<not> strict_eq k k')"
  by (simp add: ForeignKeyField_isEqual_def)

lemma ForeignKeyField_isEqual_absent:
  "ForeignKeyField_isEqual Null b = (\<not> nullish b)"
  "ForeignKeyField_isEqual a Null = (\<not> nullish a)"
  by (simp_all add: ForeignKeyField_isEqual_def loose_eq_def)

text \<open>
  Claim C1 says that the foreign-key \<open>isEqual\<close> answers true exactly for two present
  instances with equal primary keys and false when a side is absent, so that assigning
  an instance with the stored key leaves the dirty set alone and assigning one with
  another key marks the field dirty. Run on the loaded board whose creator is \<open>billy\<close>,
  the code does the opposite on each count: two instances with the same key compare as
  not equal and re-assigning \<open>billy\<close> marks \<open>creator\<close> dirty; two instances with different
  keys compare as equal, as do an instance and \<open>null\<close>, and assigning the user \<open>joe\<close> (or
  \<open>null\<close>) changes neither the stored value nor the dirty set.
\<close>

theorem C1_isEqual_inverted:
  "isEqual (ForeignKeyField plain_opts ''User'')
     (Inst ''User'' (Str ''billy'')) (Inst ''User'' (Str ''billy'')) = False
   \<and> isEqual (ForeignKeyField plain_opts ''User'')
     (Inst ''User'' (Str ''joe'')) (Inst ''User'' (Str ''billy'')) = True
   \<and> isEqual (ForeignKeyField plain_opts ''User'') Null (Inst ''User'' (Str ''billy'')) = True
   \<and> w_dirtyFields (object_set ''creator'' (Inst ''User'' (Str ''billy'')) loaded_board)
       = [''creator'']
   \<and> object_set ''creator'' (Inst ''User'' (Str ''joe'')) loaded_board = loaded_board
   \<and> object_set ''creator'' Null loaded_board = loaded_board"
  by (simp add: example_defs wrapper_defs)

subsection \<open>What toDocument writes\<close>

lemma toDocument_loop_keys:
  "toDocument_loop w now dirtyOnly keys ret = Inr dat \<Longrightarrow>
   fst ` set dat =
     fst ` set ret \<union> {key \<in> set keys. dirtyOnly \<longrightarrow> key \<in> set (w_dirtyFields w)}"
proof (induction keys arbitrary: ret)
  case Nil
  then show ?case by simp
next
  case (Cons key keys)
  show ?case
  proof (cases "dirtyOnly \<and> key \<notin> set (w_dirtyFields w)")
    case True
    with Cons.prems have "toDocument_loop w now dirtyOnly keys ret = Inr dat"
      by simp
    from Cons.IH [OF this] True show ?thesis
      by auto
  next
    case False
    with Cons.prems obtain v where "clean_key w now key = Inr v"
      and rest: "toDocument_loop w now dirtyOnly keys (put key v ret) = Inr dat"
      by (auto split: sum.splits)
    from Cons.IH [OF rest] False show ?thesis
      by (auto simp: keys_put)
  qed
qed

lemma toDocument_loop_values:
  "toDocument_loop w now dirtyOnly keys ret = Inr dat \<Longrightarrow>
   (if key \<in> set keys \<and> (dirtyOnly \<longrightarrow> key \<in> set (w_dirtyFields w))
    then clean_key w now key = Inr (get dat key)
    else get dat key = get ret key)"
proof (induction keys arbitrary: ret)
  case Nil
  then show ?case by simp
next
  case (Cons k keys)
  show ?case
  proof (cases "dirtyOnly \<and> k \<notin> set (w_dirtyFields w)")
    case True
    with Cons.prems have "toDocument_loop w now dirtyOnly keys ret = Inr dat"
      by simp
    from Cons.IH [OF this] True show ?thesis
      by auto
  next
    case False
    with Cons.prems obtain v where v: "clean_key w now k = Inr v"
      and rest: "toDocument_loop w now dirtyOnly keys (put k v ret) = Inr dat"
      by (auto split: sum.splits)
    from Cons.IH [OF rest] False v show ?thesis
      by (auto simp: get_put split: if_splits)
  qed
qed

lemma toDocument_loop_fails:
  "key \<in> set keys \<Longrightarrow> dirtyOnly \<longrightarrow> key \<in> set (w_dirtyFields w) \<Longrightarrow>
   clean_key w now key = Inl e \<Longrightarrow> \<exists>e'. toDocument_loop w now dirtyOnly keys ret = Inl e'"
proof (induction keys arbitrary: ret)
  case Nil
  then show ?case by simp
next
  case (Cons k keys)
  then show ?case
    by (cases "clean_key w now k") auto
qed

lemma toDocument_fails:
  "key \<in> fst ` set (w_fields w) \<Longrightarrow> dirtyOnly \<longrightarrow> key \<in> set (w_dirtyFields w) \<Longrightarrow>
   clean_key w now key = Inl e \<Longrightarrow> \<exists>e'. toDocument w now dirtyOnly = Inl e'"
  using toDocument_loop_fails [of key "map fst (w_fields w)" dirtyOnly w now e "[]"]
  by (auto simp: toDocument_def)

lemma toDocument_stamps:
  assumes "toDocument w now dirtyOnly = Inr dat"
  obtains ret where "toDocument_loop w now dirtyOnly (map fst (w_fields w)) [] = Inr ret"
    and "dat = put ''_dbObjectVersion''
       (plus_one (or_else (get (w_fields w) ''_dbObjectVersion'') (Num 0)))
       (put ''_dbCreationTime'' (or_else (get (w_fields w) ''_dbCreationTime'') (DateV now))
         (put ''_dbLastUpdateTime'' (DateV now) ret))"
  using assms by (auto simp: toDocument_def Let_def get_put split: sum.splits)

lemma toDocument_keys:
  assumes "toDocument w now dirtyOnly = Inr dat"
  shows "fst ` set dat =
     {key \<in> fst ` set (w_fields w). dirtyOnly \<longrightarrow> key \<in> set (w_dirtyFields w)} \<union> bookkeeping"
proof -
  from assms obtain ret
    where ret: "toDocument_loop w now dirtyOnly (map fst (w_fields w)) [] = Inr ret"
      and dat: "dat = put ''_dbObjectVersion''
       (plus_one (or_else (get (w_fields w) ''_dbObjectVersion'') (Num 0)))
       (put ''_dbCreationTime'' (or_else (get (w_fields w) ''_dbCreationTime'') (DateV now))
         (put ''_dbLastUpdateTime'' (DateV now) ret))"
    by (rule toDocument_stamps)
  show ?thesis
    using toDocument_loop_keys [OF ret] by (auto simp: dat keys_put bookkeeping_def)
qed

lemma toDocument_values:
  assumes "toDocument w now dirtyOnly = Inr dat"
    and "key \<in> fst ` set (w_fields w)" and "dirtyOnly \<longrightarrow> key \<in> set (w_dirtyFields w)"
    and "key \<notin> bookkeeping"
  shows "clean_key w now key = Inr (get dat key)"
proof -
  from assms(1) obtain ret
    where ret: "toDocument_loop w now dirtyOnly (map fst (w_fields w)) [] = Inr ret"
      and dat: "dat = put ''_dbObjectVersion''
       (plus_one (or_else (get (w_fields w) ''_dbObjectVersion'') (Num 0)))
       (put ''_dbCreationTime'' (or_else (get (w_fields w) ''_dbCreationTime'') (DateV now))
         (put ''_dbLastUpdateTime'' (DateV now) ret))"
    by (rule toDocument_stamps)
  from assms(4) have "get dat key = get ret key"
    by (auto simp: dat get_put bookkeeping_def)
  with toDocument_loop_values [OF ret, of key] assms(2,3) show ?thesis
    by auto
qed

lemma toDocument_version:
  assumes "toDocument w now dirtyOnly = Inr dat"
  shows "get dat ''_dbObjectVersion'' = plus_one (or_else (objectVersion w) (Num 0))"
  using assms by (auto simp: toDocument_def Let_def get_put objectVersion_def split: sum.splits)

subsection \<open>Forced and unforced updates (C2)\<close>

text \<open>
  Claim C2 says that a forced save of an instance present in storage sends an update
  with the cleaned values of all registered fields. It does not: the forced save of the
  loaded user whose password alone was changed sends the password and the three
  bookkeeping fields, and neither \<open>userType\<close> nor \<open>_id\<close>, which are registered fields.
\<close>

theorem C2_forced_update_omits_clean_fields:
  "save edited_user True ''2019-03-03T09:00:00.000Z'' =
     (edited_user,
      [Hook ''beforeSaveToDB'',
       Request (UpdateOne [(''_id'', Str ''Billy'')]
                  [(''password'', Str ''hunter2''),
                   (''_dbLastUpdateTime'', DateV ''2019-03-03T09:00:00.000Z''),
                   (''_dbCreationTime'', DateV ''2019-03-01T10:00:00.000Z''),
                   (''_dbObjectVersion'', Num 2)]
                  ''Users'')],
      None)
   \<and> ''userType'' \<in> set (fieldNames User_mongore)
   \<and> ''_id'' \<in> set (fieldNames User_mongore)"
  by (simp add: example_defs wrapper_defs)

text \<open>
  Claim C2 as amended: for an instance present in storage, a save that is forced or finds
  a dirty field, and whose serialization succeeds, hands the storage client one update,
  filtered on \<open>_id\<close>, whose document has as keys exactly the dirty keys of \<open>_fields\<close> and
  the three bookkeeping keys, and holds for each dirty key the cleaned value of the field;
  this is so with and without force. Force only decides whether an update goes out when
  no field is dirty.
\<close>

theorem C2_update_holds_dirty_fields:
  assumes "isInDB w" and "forceSave \<or> isDirty w" and "toDocument w now True = Inr dat"
  shows "save w forceSave now =
           (w, [Hook ''beforeSaveToDB'',
                Request (UpdateOne [(''_id'', get_id w)] dat (collectionName (w_classWrapper w)))],
            None)
         \<and> fst ` set dat =
             {key \<in> fst ` set (w_fields w). key \<in> set (w_dirtyFields w)} \<union> bookkeeping
         \<and> (key \<in> fst ` set (w_fields w) \<and> key \<in> set (w_dirtyFields w) \<and> key \<notin> bookkeeping
              \<longrightarrow> clean_key w now key = Inr (get dat key))"
  using assms toDocument_keys [OF assms(3)] toDocument_values [OF assms(3), of key]
  by (auto simp: save_def)

text \<open>The amended claim C2 at work on the edited user, saved without force.\<close>

theorem C2_update_holds_dirty_fields_witness:
  "isInDB edited_user \<and> isDirty edited_user
   \<and> toDocument edited_user ''2019-03-03T09:00:00.000Z'' True = Inr edited_user_update
   \<and> save edited_user False ''2019-03-03T09:00:00.000Z'' =
       (edited_user,
        [Hook ''beforeSaveToDB'',
         Request (UpdateOne [(''_id'', Str ''Billy'')] edited_user_update ''Users'')], None)
   \<and> ''password'' \<in> fst ` set (w_fields edited_user)
   \<and> ''password'' \<in> set (w_dirtyFields edited_user)
   \<and> clean_key edited_user ''2019-03-03T09:00:00.000Z'' ''password'' = Inr (Str ''hunter2'')"
  using C2_update_holds_dirty_fields
    [of edited_user False "''2019-03-03T09:00:00.000Z''" edited_user_update "''password''"]
  by (simp add: example_defs wrapper_defs)

subsection \<open>The version counter (C3)\<close>

lemma classWrapper_object_set [simp]: "w_classWrapper (object_set n v w) = w_classWrapper w"
  by (auto simp: object_set_def setter_def split: option.splits)

text \<open>
  What the wrapper holds after a write: whatever the argument of the success callback
  carries under \<open>_dbObjectVersion\<close>.
\<close>

lemma save_succeeded_version:
  "objectVersion (fst (save_succeeded res cb w)) = get res ''_dbObjectVersion''
   \<and> w_classWrapper (fst (save_succeeded res cb w)) = w_classWrapper w"
  by (simp add: save_succeeded_def afterSaveToDB_def Let_def objectVersion_def get_put)

text \<open>
  Claim C3 says that every successful save raises the persisted version counter by one,
  so that the n-th save persists version n. The code sets out to do so: the document
  written carries the counter the wrapper holds plus one (\<open>toDocument_version\<close>), and
  after a write the wrapper takes its counter from the argument of the success callback
  (\<open>save_succeeded_version\<close>). But that argument, named \<open>data\<close> like the document it
  shadows, is the storage client's result, and the client hands on what the driver
  answers, which carries no \<open>_dbObjectVersion\<close>. So the wrapper loses its counter with
  every write. The insert of a new user and the update that follows a change of password
  both persist version 1; after the insert the wrapper holds no version at all; and the
  loaded user, stored at version 1, persists version 2 with its first change and
  version 1 with its second.
\<close>

theorem C3_version_repeats:
  "run_saves acknowledge new_billy
     [([], False, ''2019-03-01T10:00:00.000Z''),
      ([(''password'', Str ''hunter2'')], False, ''2019-03-03T09:00:00.000Z'')]
   = Some [Num 1, Num 1]
   \<and> objectVersion (fst (save_succeeded (acknowledge new_billy_insert) None new_billy))
       = Undefined
   \<and> run_saves acknowledge loaded_user
     [([(''password'', Str ''hunter2'')], False, ''2019-03-03T09:00:00.000Z''),
      ([(''password'', Str ''hunter3'')], False, ''2019-03-04T09:00:00.000Z'')]
   = Some [Num 2, Num 1]"
  by (simp add: example_defs wrapper_defs)

subsection \<open>A new instance (C4)\<close>

lemma stored_default_defined: "stored_default f \<noteq> Undefined"
  by (cases f) (auto simp: stored_default_def)

lemma json_copy_object_defined:
  "typeof_object v \<Longrightarrow> \<not> has_instance v \<Longrightarrow> v \<noteq> Null \<Longrightarrow> json_copy v \<noteq> Undefined"
  by (cases v) auto

lemma default_of_defined:
  assumes "\<not> is_foreign_key f" and "default_of f = Inr v"
  shows "v \<noteq> Undefined"
  using assms stored_default_defined [of f] json_copy_object_defined [of "stored_default f"]
  by (cases f) (auto simp: default_of_def split: if_splits)

lemma Field_isEqual_other: "\<not> is_foreign_key f \<Longrightarrow> isEqual f a b = strict_eq a b"
  by (cases f) (auto simp: Field_isEqual_def)

lemma Set_add_mono: "x \<in> set xs \<Longrightarrow> x \<in> set (Set_add y xs)"
  by (simp add: Set_add_def)

lemma Set_add_in: "x \<in> set (Set_add x xs)"
  by (simp add: Set_add_def)

lemma object_set_other:
  assumes "n \<noteq> name"
  shows "get (w_fields (object_set n v w)) name = get (w_fields w) name"
    and "name \<in> set (w_dirtyFields w) \<Longrightarrow> name \<in> set (w_dirtyFields (object_set n v w))"
  using assms
  by (auto simp: object_set_def setter_def get_put Set_add_mono split: option.splits)

lemma object_set_default:
  assumes f: "getFieldDescriptor (w_classWrapper w) name = Some f" "\<not> is_foreign_key f"
    and v: "default_of f = Inr v"
    and inv: "get (w_fields w) name = Undefined \<or> holds_default f name w"
  shows "holds_default f name (object_set name v w)"
proof (cases "isEqual f v (get (w_fields w) name)")
  case True
  then have "strict_eq v (get (w_fields w) name)"
    using f(2) by (simp add: Field_isEqual_other)
  then have "get (w_fields w) name = v"
    by (auto dest: strict_eq_same)
  with default_of_defined [OF f(2) v] inv have "holds_default f name w"
    by auto
  with True f(1) show ?thesis
    by (simp add: object_set_def setter_def)
next
  case False
  with f(1) v show ?thesis
    by (simp add: object_set_def setter_def holds_default_def get_put Set_add_in)
qed

lemma set_defaults_invariant:
  assumes "set_defaults names w = Inr w'"
    and "getFieldDescriptor (w_classWrapper w) name = Some f" and "\<not> is_foreign_key f"
    and "get (w_fields w) name = Undefined \<or> holds_default f name w"
  shows "name \<in> set names \<or> holds_default f name w \<longrightarrow> holds_default f name w'"
  using assms
proof (induction names arbitrary: w)
  case Nil
  then show ?case by simp
next
  case (Cons n names)
  from Cons.prems(1) obtain v where v: "getDefault (w_classWrapper w) n = Inr v"
    and rest: "set_defaults names (object_set n v w) = Inr w'"
    by (auto split: sum.splits)
  show ?case
  proof (cases "n = name")
    case True
    with v Cons.prems(2) have dv: "default_of f = Inr v"
      by (simp add: getDefault_def)
    have good: "holds_default f name (object_set name v w)"
      by (rule object_set_default [OF Cons.prems(2,3) dv Cons.prems(4)])
    from Cons.IH [OF rest [unfolded True]] Cons.prems(2,3) good True
    show ?thesis by auto
  next
    case False
    have keep: "holds_default f name w \<Longrightarrow> holds_default f name (object_set n v w)"
      using object_set_other [OF False, where v = v and w = w]
      by (auto simp: holds_default_def)
    have "get (w_fields (object_set n v w)) name = Undefined
          \<or> holds_default f name (object_set n v w)"
      using Cons.prems(4) object_set_other(1) [OF False, where v = v and w = w] keep
      by auto
    from Cons.IH [OF rest _ Cons.prems(3) this] Cons.prems(2) False keep
    show ?thesis by auto
  qed
qed

text \<open>
  The constructor returns whenever every default can be cloned, that is, when no default
  of a descriptor other than a foreign key contains a model instance.
\<close>

lemma default_of_succeeds:
  "is_foreign_key f \<or> \<not> has_instance (stored_default f) \<Longrightarrow> \<exists>v. default_of f = Inr v"
  by (cases f) (auto simp: default_of_def)

lemma set_defaults_succeeds:
  assumes "\<forall>(n, f) \<in> set (md_fields (w_classWrapper w)).
             is_foreign_key f \<or> \<not> has_instance (stored_default f)"
    and "set names \<subseteq> set (fieldNames (w_classWrapper w))"
  shows "\<exists>w'. set_defaults names w = Inr w'"
  using assms
proof (induction names arbitrary: w)
  case Nil
  then show ?case by simp
next
  case (Cons n names)
  from Cons.prems(2) obtain f where f: "getFieldDescriptor (w_classWrapper w) n = Some f"
    by (cases "getFieldDescriptor (w_classWrapper w) n")
       (auto simp: getFieldDescriptor_def fieldNames_def map_of_eq_None_iff)
  then have "(n, f) \<in> set (md_fields (w_classWrapper w))"
    by (auto simp: getFieldDescriptor_def dest: map_of_SomeD)
  with Cons.prems(1) obtain v where v: "default_of f = Inr v"
    using default_of_succeeds [of f] by auto
  have "\<exists>w'. set_defaults names (object_set n v w) = Inr w'"
    using Cons.prems by (intro Cons.IH) simp_all
  with f v show ?case
    by (simp add: getDefault_def)
qed

lemma Model_new_succeeds:
  assumes "\<forall>(n, f) \<in> set (md_fields cw). is_foreign_key f \<or> \<not> has_instance (stored_default f)"
  shows "\<exists>w. Model_new (Some cw) = Inr w"
  using set_defaults_succeeds [of "new_wrapper cw" "fieldNames cw"] assms
  by (simp add: Model_new_def new_wrapper_def)

text \<open>
  Claim C4 says that right after construction every registered field holds its default
  and the dirty set is empty. The fields do hold their defaults, but the constructor
  installs them through the setters, which mark them dirty: a new user has all three of
  its fields in the dirty set, and \<open>isDirty\<close> is true.
\<close>

theorem C4_new_instance_is_dirty:
  "Model_new (Some User_mongore) = Inr new_user
   \<and> w_dirtyFields new_user = [''_id'', ''userType'', ''password'']
   \<and> isDirty new_user"
  by (simp add: example_defs wrapper_defs)

text \<open>
  Claim C4 as amended: right after the base constructor has run, every registered field
  whose descriptor is not a foreign key holds its descriptor's default value and is in
  the dirty set, so \<open>isDirty\<close> is true for a model that declares such a field.
\<close>

theorem C4_defaults_are_dirty:
  assumes "Model_new (Some cw) = Inr w" and "getFieldDescriptor cw name = Some f"
    and "\<not> is_foreign_key f"
  shows "default_of f = Inr (get (w_fields w) name) \<and> name \<in> set (w_dirtyFields w) \<and> isDirty w"
proof -
  from assms(1) have run: "set_defaults (fieldNames cw) (new_wrapper cw) = Inr w"
    by (simp add: Model_new_def)
  have "name \<in> set (fieldNames cw)"
    using assms(2)
    by (auto simp: getFieldDescriptor_def fieldNames_def dest: map_of_SomeD intro: rev_image_eqI)
  moreover have "get (w_fields (new_wrapper cw)) name = Undefined"
    by (simp add: new_wrapper_def get_def)
  ultimately have "holds_default f name w"
    using set_defaults_invariant [OF run, of name f] assms(2,3)
    by (simp add: new_wrapper_def)
  then show ?thesis
    by (auto simp: holds_default_def isDirty_def)
qed

text \<open>The amended claim C4 at work on the password of a new user.\<close>

theorem C4_defaults_are_dirty_witness:
  "Model_new (Some User_mongore) = Inr new_user
   \<and> getFieldDescriptor User_mongore ''password'' = Some (StringField plain_opts None None)
   \<and> \<not> is_foreign_key (StringField plain_opts None None)
   \<and> get (w_fields new_user) ''password'' = Str []
   \<and> ''password'' \<in> set (w_dirtyFields new_user) \<and> isDirty new_user"
  using C4_defaults_are_dirty
    [of User_mongore new_user "''password''" "StringField plain_opts None None"]
  by (simp add: example_defs wrapper_defs)


subsection \<open>Cleaning null (C5)\<close>

lemma validateEmail_null: "validateEmail Null = False"
  unfolding validateEmail_def emailRE_def re_dotted_def re_tld_def re_words_def re_plus_def
    re_opt_def
  by (simp add: word_char_def)

text \<open>
  The email descriptor documents \<open>canBeNull\<close>, yet its \<open>clean\<close> tests the pattern on what the
  string descriptor returned, \<open>null\<close> included, and \<open>null\<close> is no email address.
\<close>

lemma EmailField_clean_null:
  "canBeNull d \<Longrightarrow> Field_clean d inst v = Null \<Longrightarrow>
   clean inst now (EmailField d maxLength minLength) v
     = Inl (ValidationError ''not a valid email pattern'')"
  by (simp add: StringField_clean_def validateEmail_null)

text \<open>The date descriptor lets \<open>null\<close> through whatever \<open>canBeNull\<close> is.\<close>

lemma DateField_clean_null:
  "Field_clean d inst v = Null \<Longrightarrow>
   clean inst now (DateField d autoNow) v = Inr (if autoNow then DateV now else Null)"
  by simp

text \<open>
  Claim C5 says that \<open>clean(null)\<close> returns \<open>null\<close> for every descriptor class configured
  with \<open>canBeNull\<close>, the date with \<open>autoNow\<close> apart. A list descriptor with \<open>canBeNull\<close> set
  rejects \<open>null\<close>: its \<open>clean\<close> never looks at the option.
\<close>

theorem C5_list_rejects_null:
  "canBeNull (plain_opts \<lparr> canBeNull := True \<rparr>)
   \<and> clean no_object ''2019-03-01T10:00:00.000Z''
        (ListField (plain_opts \<lparr> canBeNull := True \<rparr>) None None False) Null
      = Inl (PlainError ''not a list'')"
  by (simp add: Field_clean_def plain_opts_def)

text \<open>
  Claim C5 as amended: when the value to clean (the raw value, or the aliased property
  under a source alias) is \<open>null\<close> and the descriptor is configured with \<open>canBeNull\<close>, the
  generic, boolean, numeric, string, choice and foreign-key descriptors return \<open>null\<close>; the
  date descriptor returns \<open>null\<close>, or the current time under \<open>autoNow\<close>; the list and
  dictionary descriptors have no such option and fail. Nothing is said of the email
  descriptor.
\<close>

theorem C5_clean_null:
  assumes "canBeNull (data f)" and "Field_clean (data f) inst v = Null"
  shows "case f of
           ListField d maxItems itemsType removeDuplicates \<Rightarrow>
             clean inst now f v = Inl (PlainError ''not a list'')
         | DictionaryField d schema \<Rightarrow>
             clean inst now f v = Inl (TypeError ''constructor of null'')
         | DateField d autoNow \<Rightarrow>
             clean inst now f v = Inr (if autoNow then DateV now else Null)
         | EmailField d maxLength minLength \<Rightarrow> True
         | _ \<Rightarrow> clean inst now f v = Inr Null"
  using assms by (cases f) (simp_all add: StringField_clean_def)

text \<open>The amended claim C5 at work on a string descriptor that allows \<open>null\<close>.\<close>

theorem C5_clean_null_witness:
  "canBeNull (data (StringField (plain_opts \<lparr> canBeNull := True \<rparr>) None None))
   \<and> Field_clean (plain_opts \<lparr> canBeNull := True \<rparr>) no_object Null = Null
   \<and> clean no_object ''2019-03-01T10:00:00.000Z''
        (StringField (plain_opts \<lparr> canBeNull := True \<rparr>) None None) Null = Inr Null"
  using C5_clean_null
    [of "StringField (plain_opts \<lparr> canBeNull := True \<rparr>) None None" no_object Null
        "''2019-03-01T10:00:00.000Z''"]
  by (simp add: Field_clean_def plain_opts_def)

subsection \<open>Dictionaries with a schema (C6)\<close>

lemma arraysEqual_from_iff:
  "n \<le> length a \<Longrightarrow> n \<le> length b \<Longrightarrow> arraysEqual_from n a b = (take n a = take n b)"
proof (induction n)
  case 0
  then show ?case by simp
next
  case (Suc n)
  then show ?case
    by (auto simp: take_Suc_conv_app_nth)
qed

lemma arraysEqual_iff: "arraysEqual a b = (a = b)"
  by (auto simp: arraysEqual_def arraysEqual_from_iff)

lemma dictionary_values_iff:
  "(\<exists>newDict. collect (map (\<lambda>(key, x).
        case map_of sch key of
          None \<Rightarrow> Inl (TypeError ''clean of undefined'')
        | Some f \<Rightarrow> (case clean inst now f x of Inl e \<Rightarrow> Inl e | Inr y \<Rightarrow> Inr (key, y))) kvs)
      = Inr newDict)
   = (\<forall>(key, x) \<in> set kvs. \<exists>f y. map_of sch key = Some f \<and> clean inst now f x = Inr y)"
  (is "(\<exists>newDict. collect (map ?g kvs) = Inr newDict) = ?R")
proof -
  have "(\<exists>newDict. collect (map ?g kvs) = Inr newDict) = (\<forall>kv \<in> set kvs. \<exists>y. ?g kv = Inr y)"
    by (simp add: collect_Inr_iff)
  also have "\<dots> = ?R"
    by (intro ball_cong refl) (auto split: option.splits sum.splits)
  finally show ?thesis .
qed

text \<open>
  Claim C6 says that a dictionary field with a schema accepts exactly the mappings whose
  key set equals the schema's key set, in whatever order the keys come. The keys are
  compared as sequences: for the schema with the keys \<open>a\<close>, \<open>b\<close>, the mapping that lists
  \<open>b\<close> before \<open>a\<close> has the schema's key set and is rejected.
\<close>

theorem C6_reordered_keys_rejected:
  "clean no_object ''2019-03-01T10:00:00.000Z'' point_field
     (Obj [(''b'', Str ''x''), (''a'', Num 1)])
     = Inl (ValidationError ''value keys don't match schema'')
   \<and> set (map fst [(''b'', Str ''x''), (''a'', Num 1)]) = set (map fst point_schema)"
  by (auto simp: example_defs wrapper_defs)

text \<open>
  Claim C6 as amended: a dictionary field with a schema accepts a value exactly when the
  value to clean is a plain object whose keys, in enumeration order, are the schema's keys
  in the schema's enumeration order, and every entry is accepted by the \<open>clean\<close> of the
  schema descriptor of its key. A missing key, an extra key and a different order of the
  same keys all make cleaning fail.
\<close>

theorem C6_dictionary_keys_in_order:
  "(\<exists>r. clean inst now (DictionaryField d (Some sch)) v0 = Inr r) =
   (\<exists>kvs. Field_clean d inst v0 = Obj kvs \<and> map_of kvs ''constructor'' = None
      \<and> map fst kvs = map fst sch
      \<and> (\<forall>(key, x) \<in> set kvs. \<exists>f y. map_of sch key = Some f \<and> clean inst now f x = Inr y))"
proof (cases "Field_clean d inst v0")
  case (Obj kvs)
  show ?thesis
    using dictionary_values_iff [where sch = sch and inst = inst and now = now and kvs = kvs]
    by (auto simp: Obj arraysEqual_iff split: sum.splits)
qed simp_all

text \<open>The amended claim C6 at work: the mapping that lists \<open>a\<close> before \<open>b\<close> is accepted.\<close>

theorem C6_dictionary_keys_in_order_witness:
  "Field_clean (plain_opts \<lparr> default_opt := Obj [(''a'', Num 0), (''b'', Str [])] \<rparr>) no_object
      (Obj [(''a'', Num 1), (''b'', Str ''x'')]) = Obj [(''a'', Num 1), (''b'', Str ''x'')]
   \<and> map fst [(''a'', Num 1), (''b'', Str ''x'')] = map fst point_schema
   \<and> (\<exists>r. clean no_object ''2019-03-01T10:00:00.000Z'' point_field
              (Obj [(''a'', Num 1), (''b'', Str ''x'')]) = Inr r)"
  using C6_dictionary_keys_in_order
    [where inst = no_object and now = "''2019-03-01T10:00:00.000Z''"
      and d = "plain_opts \<lparr> default_opt := Obj [(''a'', Num 0), (''b'', Str [])] \<rparr>"
      and sch = point_schema and ?v0.0 = "Obj [(''a'', Num 1), (''b'', Str ''x'')]"]
  by (simp add: example_defs wrapper_defs)

subsection \<open>Saving without changes (C7)\<close>

lemma toDocument_loop_nothing_dirty:
  "w_dirtyFields w = [] \<Longrightarrow> toDocument_loop w now True keys ret = Inr ret"
  by (induction keys) auto

lemma toDocument_nothing_dirty:
  "w_dirtyFields w = [] \<Longrightarrow> \<exists>dat. toDocument w now True = Inr dat"
  by (simp add: toDocument_def toDocument_loop_nothing_dirty Let_def)

text \<open>
  Claim C7: for an instance present in storage with an empty dirty set, an unforced
  \<open>save\<close> hands nothing to the storage client. In particular, when an instance not yet in
  storage is saved and its serialization succeeds, that first \<open>save\<close> hands over exactly
  one write, an insert; once the insert has succeeded, whatever its result, a second
  \<open>save\<close> with no assignment in between hands over nothing, unless it is forced, in which
  case it hands over an update.
\<close>

theorem C7_clean_save_is_noop:
  "(isInDB w \<and> w_dirtyFields w = [] \<longrightarrow> save w False now = (w, [Hook ''beforeSaveToDB''], None))
   \<and> (\<not> isInDB w \<and> toDocument w now False = Inr dat \<longrightarrow>
        save w False now =
          (w, [Hook ''beforeSaveToDB'',
               Request (InsertOne dat (collectionName (w_classWrapper w)))], None)
        \<and> save (fst (save_succeeded res onSuccess w)) False now' =
            (fst (save_succeeded res onSuccess w), [Hook ''beforeSaveToDB''], None)
        \<and> (\<exists>query dat'.
              save (fst (save_succeeded res onSuccess w)) True now' =
                (fst (save_succeeded res onSuccess w),
                 [Hook ''beforeSaveToDB'',
                  Request (UpdateOne query dat' (collectionName (w_classWrapper w)))], None)))"
proof -
  let ?w' = "fst (save_succeeded res onSuccess w)"
  have saved: "w_dirtyFields ?w' = []" "isInDB ?w'" "w_classWrapper ?w' = w_classWrapper w"
    by (simp_all add: save_succeeded_def afterSaveToDB_def Let_def isInDB_def)
  obtain dat' where "toDocument ?w' now' True = Inr dat'"
    using toDocument_nothing_dirty [OF saved(1)] by auto
  with saved have "\<exists>query. save ?w' True now' =
      (?w', [Hook ''beforeSaveToDB'',
             Request (UpdateOne query dat' (collectionName (w_classWrapper w)))], None)"
    by (simp add: save_def)
  moreover have "save ?w' False now' = (?w', [Hook ''beforeSaveToDB''], None)"
    using saved by (simp add: save_def isDirty_def)
  ultimately show ?thesis
    by (auto simp: save_def isDirty_def)
qed

text \<open>
  Claim C7 at work: the loaded user is saved without a request; the new user is inserted
  once, its second save sends nothing, and a forced second save sends an update.
\<close>

theorem C7_clean_save_is_noop_witness:
  "isInDB loaded_user \<and> w_dirtyFields loaded_user = []
   \<and> save loaded_user False ''2019-03-03T09:00:00.000Z''
       = (loaded_user, [Hook ''beforeSaveToDB''], None)
   \<and> \<not> isInDB new_billy
   \<and> toDocument new_billy ''2019-03-01T10:00:00.000Z'' False = Inr new_billy_insert
   \<and> save new_billy False ''2019-03-01T10:00:00.000Z'' =
       (new_billy, [Hook ''beforeSaveToDB'', Request (InsertOne new_billy_insert ''Users'')], None)
   \<and> save (fst (save_succeeded insert_result None new_billy)) False ''2019-03-01T10:00:05.000Z'' =
       (fst (save_succeeded insert_result None new_billy), [Hook ''beforeSaveToDB''], None)
   \<and> (\<exists>query dat'.
         save (fst (save_succeeded insert_result None new_billy)) True ''2019-03-01T10:00:05.000Z'' =
           (fst (save_succeeded insert_result None new_billy),
            [Hook ''beforeSaveToDB'', Request (UpdateOne query dat' ''Users'')], None))"
  using C7_clean_save_is_noop [of loaded_user "''2019-03-03T09:00:00.000Z''"]
    C7_clean_save_is_noop [of new_billy "''2019-03-01T10:00:00.000Z''" new_billy_insert
      insert_result None "''2019-03-01T10:00:05.000Z''"]
  by (simp add: example_defs wrapper_defs)

subsection \<open>A failing clean (C8)\<close>

text \<open>
  Claim C8: when the \<open>clean\<close> of a field that the save serializes (any field of an instance
  not yet in storage, a dirty field of one that is) raises, \<open>save\<close> ends with an exception
  before anything is handed to the storage client, and the wrapper, with its field values
  and its dirty set, is as it was.
\<close>

theorem C8_failed_clean_aborts_save:
  assumes "key \<in> fst ` set (w_fields w)"
    and "isInDB w \<longrightarrow> key \<in> set (w_dirtyFields w)"
    and "clean_key w now key = Inl e"
  shows "\<exists>e'. save w forceSave now = (w, [Hook ''beforeSaveToDB''], Some e')"
proof (cases "isInDB w")
  case True
  with assms(2) have dirty: "key \<in> set (w_dirtyFields w)" by simp
  then have "isDirty w" by (auto simp: isDirty_def)
  moreover obtain e' where "toDocument w now True = Inl e'"
    using toDocument_fails [OF assms(1) _ assms(3), of True] dirty by auto
  ultimately show ?thesis using True by (simp add: save_def)
next
  case False
  obtain e' where "toDocument w now False = Inl e'"
    using toDocument_fails [OF assms(1) _ assms(3), of False] by auto
  with False show ?thesis by (simp add: save_def)
qed

text \<open>Claim C8 at work on a new user whose type is not among the choices.\<close>

theorem C8_failed_clean_aborts_save_witness:
  "''userType'' \<in> fst ` set (w_fields bad_user) \<and> \<not> isInDB bad_user
   \<and> clean_key bad_user ''2019-03-01T10:00:00.000Z'' ''userType''
       = Inl (PlainError ''value does not appear in possible choices'')
   \<and> (\<exists>e'. save bad_user False ''2019-03-01T10:00:00.000Z''
              = (bad_user, [Hook ''beforeSaveToDB''], Some e'))"
  using C8_failed_clean_aborts_save [of "''userType''" bad_user "''2019-03-01T10:00:00.000Z''"
              "PlainError ''value does not appear in possible choices''" False]
  by (simp add: example_defs wrapper_defs)

subsection \<open>The callback of the first load (C9)\<close>

lemma afterLoadFromDB_never_calls: "Called cb \<notin> set (snd (afterLoadFromDB now w))"
  by (simp add: afterLoadFromDB_def wrapper_callback_def Let_def)

lemma initAfterLoad_never_calls:
  "initAfterLoad classes f v w = Inr (v', w', evs) \<Longrightarrow> Called cb \<notin> set evs"
  by (cases f) (auto simp: load_def Let_def split: option.splits sum.splits)

lemma setFromDBDocument_loop_never_calls:
  "setFromDBDocument_loop classes dat keys w = (w', evs, err) \<Longrightarrow> Called cb \<notin> set evs"
proof (induction keys arbitrary: w w' evs err)
  case Nil
  then show ?case by simp
next
  case (Cons key keys)
  then show ?case
    by (auto split: sum.splits option.splits prod.splits dest: initAfterLoad_never_calls)
qed

text \<open>
  Whatever the instance and the document, a hydration (first or later) invokes no callback
  but the one passed to \<open>load\<close> or \<open>reload\<close> itself.
\<close>

lemma hydration_never_invokes_onLoaded:
  assumes "load_succeeded classes now dat None w = (w', evs, err)"
  shows "Called cb \<notin> set evs"
proof -
  obtain w1 evs1 err1
    where loop: "setFromDBDocument_loop classes dat (map fst dat) w = (w1, evs1, err1)"
    by (cases "setFromDBDocument_loop classes dat (map fst dat) w") auto
  have "Called cb \<notin> set evs1"
    by (rule setFromDBDocument_loop_never_calls [OF loop])
  moreover have "Called cb \<notin> set (snd (afterLoadFromDB now w1))"
    by (rule afterLoadFromDB_never_calls)
  ultimately show ?thesis
    using assms loop
    by (auto simp: load_succeeded_def setFromDBDocument_def split: prod.splits option.splits)
qed

text \<open>
  Claim C9 says that the callback registered through \<open>onLoaded\<close> is invoked exactly once,
  on the first hydration of the instance. Registered on a new user before its document
  arrives, the callback \<open>greet\<close> is stored; the hydration then runs the
  \<open>afterLoadedFromDB\<close> hook and nothing else: the callback is not invoked.
\<close>

theorem C9_onLoaded_not_invoked:
  "set_onLoaded (Some ''greet'') new_user = (new_user \<lparr> w_onFirstLoad := Some ''greet'' \<rparr>, [])
   \<and> get_onLoaded (new_user \<lparr> w_onFirstLoad := Some ''greet'' \<rparr>) = Some ''greet''
   \<and> load_succeeded forum_classes ''2019-03-02T08:00:00.000Z'' billy_document None
        (new_user \<lparr> w_onFirstLoad := Some ''greet'' \<rparr>)
      = (loaded_user \<lparr> w_onFirstLoad := Some ''greet'' \<rparr>, [Hook ''afterLoadedFromDB''], None)"
  by (simp add: example_defs wrapper_defs get_onLoaded_def)

subsection \<open>Deleting an instance (C10)\<close>

text \<open>
  Claim C10: a successful instance-level delete leaves the wrapper as it was, field
  values, dirty set and both flags included; so an instance that was in storage still
  counts as being there, and any request a later \<open>save\<close> hands to the storage client is an
  update, never an insert.
\<close>

theorem C10_delete_keeps_state:
  "fst (delete_succeeded onSuccess w) = w
   \<and> (isInDB w \<longrightarrow>
        isInDB (fst (delete_succeeded onSuccess w))
        \<and> (Request r \<in> set (fst (snd (save (fst (delete_succeeded onSuccess w)) forceSave now)))
             \<longrightarrow> (\<exists>query dat c. r = UpdateOne query dat c)))"
  by (auto simp: delete_succeeded_def save_def split: sum.splits if_splits)

text \<open>Claim C10 at work: the edited user is deleted, then saved; the save is an update.\<close>

theorem C10_delete_keeps_state_witness:
  "fst (delete_succeeded None edited_user) = edited_user \<and> isInDB edited_user
   \<and> isInDB (fst (delete_succeeded None edited_user))
   \<and> Request (UpdateOne [(''_id'', Str ''Billy'')] edited_user_update ''Users'')
       \<in> set (fst (snd (save (fst (delete_succeeded None edited_user)) False
                              ''2019-03-03T09:00:00.000Z'')))"
  using C10_delete_keeps_state [of None edited_user
      "UpdateOne [(''_id'', Str ''Billy'')] edited_user_update ''Users''" False
      "''2019-03-03T09:00:00.000Z''"]
  by (simp add: example_defs wrapper_defs)


end
